theory Spec2Isabelle
  imports Complex_Main
begin

section \<open>Data model\<close>

text \<open>
  Values that reach the program from a request. The adapters read fields of a parsed JSON
  object and hand them on through unchecked casts (\<^verbatim>\<open>args.title as string\<close>) or
  with no type at all (\<^verbatim>\<open>req.body\<close>), so a title is whatever value the request
  carried; \<open>Undefined\<close> is the value of a property that is absent. A number is kept as
  a rational: the program only tests it for zero and stores it.
\<close>

datatype jsvalue =
    Undefined
  | Null
  | Boolean bool
  | Number rat
  | String string
  | Array "jsvalue list"
  | Object "(string \<times> jsvalue) list"

text \<open>\<^verbatim>\<open>interface Task { id; title; completed; createdAt }\<close>\<close>

record task =
  task_id :: string
  title :: jsvalue
  completed :: bool
  createdAt :: string

text \<open>
  What \<^verbatim>\<open>JSON.parse\<close> returns from the text of the file: an array, whose elements
  the source types as \<^verbatim>\<open>Task\<close>, or a value that is not an array. The source
  returns either as a \<^verbatim>\<open>Task[]\<close>, unchecked.
\<close>

datatype parsed =
    Tasks "task list"
  | NullValue
  | BooleanValue bool
  | NumberValue rat
  | StringValue string
  | ObjectValue "(string \<times> jsvalue) list"

text \<open>
  The \<^verbatim>\<open>TypeError\<close> that JavaScript raises on reading a property of
  \<^verbatim>\<open>null\<close>, or on calling a property that is not a function: the value and the name
  of the property.
\<close>

datatype exn = TypeError parsed string

text \<open>
  The functions of the JavaScript platform that the program calls:
  \<^verbatim>\<open>JSON.parse(data)\<close> on the file's text, \<open>None\<close> where it throws;
  \<^verbatim>\<open>JSON.stringify(tasks, null, 2)\<close> on a collection and
  \<^verbatim>\<open>JSON.stringify(task, null, 2)\<close> on one record; and the
  \<^verbatim>\<open>message\<close> of an error.
\<close>

record platform =
  JSON_parse :: "string \<Rightarrow> parsed option"
  JSON_stringify :: "task list \<Rightarrow> string"
  JSON_stringify_task :: "task \<Rightarrow> string"
  message :: "exn \<Rightarrow> string"

text \<open>
  What the program sees of its surroundings: the text of \<^verbatim>\<open>TASKS_FILE\<close>
  (\<open>None\<close> when \<^verbatim>\<open>fs.existsSync\<close> is false), whether
  \<^verbatim>\<open>fs.readFileSync\<close> and \<^verbatim>\<open>fs.writeFileSync\<close> succeed on it, and the lines
  written with \<^verbatim>\<open>console.error\<close> (the error object that follows the message is
  left out).
\<close>

record world =
  tasks_file :: "string option"
  readable :: bool
  writable :: bool
  console :: "string list"

section \<open>Store\<close>

definition console_error :: "string \<Rightarrow> world \<Rightarrow> world" where
  "console_error msg w = w\<lparr>console := console w @ [msg]\<rparr>"

text \<open>
  \<^verbatim>\<open>loadTasks\<close>: inside the \<^verbatim>\<open>try\<close>, the file is read and parsed when it
  exists, and what \<^verbatim>\<open>JSON.parse\<close> returned is returned as it is; an exception of
  the read or of the parse is caught and logged; every path that did not return the
  parsed value returns \<^verbatim>\<open>[]\<close>.
\<close>

definition loadTasks :: "platform \<Rightarrow> world \<Rightarrow> parsed \<times> world" where
  "loadTasks P w =
     (case tasks_file w of
        None \<Rightarrow> (Tasks [], w)
      | Some data \<Rightarrow>
          if \<not> readable w then (Tasks [], console_error ''Error loading tasks:'' w)
          else (case JSON_parse P data of
                  None \<Rightarrow> (Tasks [], console_error ''Error loading tasks:'' w)
                | Some v \<Rightarrow> (v, w)))"

text \<open>
  \<^verbatim>\<open>saveTasks\<close>: the whole file is replaced by the text of the collection; an
  exception of the write is caught and logged, and the file keeps what it had.
\<close>

definition saveTasks :: "platform \<Rightarrow> task list \<Rightarrow> world \<Rightarrow> world" where
  "saveTasks P tasks w =
     (if writable w then w\<lparr>tasks_file := Some (JSON_stringify P tasks)\<rparr>
      else console_error ''Error saving tasks:'' w)"

section \<open>Clock readings as text\<close>

text \<open>
  \<^verbatim>\<open>Date.now()\<close> and \<^verbatim>\<open>new Date()\<close> read the clock: each reading is a number of
  milliseconds since the epoch, an integer. \<^verbatim>\<open>toString()\<close> of an integer of that
  size is its decimal numeral, with a minus sign below zero.
\<close>

fun digits :: "nat \<Rightarrow> string" where
  "digits n = (if n < 10 then [''0123456789'' ! n]
               else digits (n div 10) @ [''0123456789'' ! (n mod 10)])"

declare digits.simps [simp del]

definition Number_toString :: "int \<Rightarrow> string" where
  "Number_toString n = (if n < 0 then ''-'' @ digits (nat (- n)) else digits (nat n))"

text \<open>
  \<^verbatim>\<open>toISOString()\<close> prints a time value as
  \<^verbatim>\<open>YYYY-MM-DDTHH:mm:ss.sssZ\<close> in UTC (the year with a sign and six digits outside
  0..9999). The date of a day number is computed in the proleptic Gregorian calendar, by
  eras of 400 years counted from 1 March of year 0.
\<close>

definition pad :: "nat \<Rightarrow> nat \<Rightarrow> string" where
  "pad width n = replicate (width - length (digits n)) CHR ''0'' @ digits n"

definition civil_from_days :: "int \<Rightarrow> int \<times> nat \<times> nat" where
  "civil_from_days days =
     (let z = days + 719468;
          era = z div 146097;
          doe = nat (z - era * 146097);
          yoe = (doe - doe div 1460 + doe div 36524 - doe div 146096) div 365;
          doy = doe - (365 * yoe + yoe div 4 - yoe div 100);
          mp = (5 * doy + 2) div 153;
          d = doy - (153 * mp + 2) div 5 + 1;
          m = (if mp < 10 then mp + 3 else mp - 9);
          y = int yoe + era * 400
      in (if m \<le> 2 then y + 1 else y, m, d))"

definition year_string :: "int \<Rightarrow> string" where
  "year_string y =
     (if 0 \<le> y \<and> y \<le> 9999 then pad 4 (nat y)
      else (if y < 0 then ''-'' else ''+'') @ pad 6 (nat \<bar>y\<bar>))"

definition toISOString :: "int \<Rightarrow> string" where
  "toISOString t =
     (let ms = nat (t mod 86400000)
      in case civil_from_days (t div 86400000) of
           (y, m, d) \<Rightarrow>
             year_string y @ ''-'' @ pad 2 m @ ''-'' @ pad 2 d @ ''T''
             @ pad 2 (ms div 3600000) @ '':'' @ pad 2 (ms div 60000 mod 60) @ '':''
             @ pad 2 (ms div 1000 mod 60) @ ''.'' @ pad 3 (ms mod 1000) @ ''Z'')"

section \<open>Task API\<close>

text \<open>
  Every operation loads the collection, works on it in memory and, when it changed it,
  saves it. The model passes the world in and returns it with the result. The result is
  the value returned (\<open>Inr\<close>) or the exception thrown (\<open>Inl\<close>): when what was
  loaded is not an array, \<^verbatim>\<open>tasks.push\<close>, \<^verbatim>\<open>tasks.find\<close> and
  \<^verbatim>\<open>tasks.findIndex\<close> are not functions (\<^verbatim>\<open>null\<close> has no properties at
  all), and calling them raises a \<^verbatim>\<open>TypeError\<close> that nothing in the operation
  catches.

  \<^verbatim>\<open>createTask\<close> reads the clock twice: \<open>now\<close> is the reading of
  \<^verbatim>\<open>Date.now()\<close>, \<open>date\<close> that of \<^verbatim>\<open>new Date()\<close>.
\<close>

definition createTask ::
  "platform \<Rightarrow> int \<Rightarrow> int \<Rightarrow> jsvalue \<Rightarrow> world \<Rightarrow> (exn + task) \<times> world" where
  "createTask P now date ttl w =
     (case loadTasks P w of
        (Tasks tasks, w1) \<Rightarrow>
          (let task = \<lparr>task_id = Number_toString now, title = ttl, completed = False,
                       createdAt = toISOString date\<rparr>
           in (Inr task, saveTasks P (tasks @ [task]) w1))
      | (v, w1) \<Rightarrow> (Inl (TypeError v ''push''), w1))"

definition listTasks :: "platform \<Rightarrow> world \<Rightarrow> parsed \<times> world" where
  "listTasks P w = loadTasks P w"

text \<open>
  \<^verbatim>\<open>tasks.find(p)\<close> is \<^const>\<open>List.find\<close>: the first element that satisfies
  \<open>p\<close>, or \<open>None\<close> for \<^verbatim>\<open>undefined\<close>. \<^verbatim>\<open>tasks.findIndex(p)\<close> is its
  position, \<open>None\<close> for \<^verbatim>\<open>-1\<close>. The comparison \<^verbatim>\<open>t.id === id\<close> of two
  strings is equality of strings.
\<close>

fun findIndex :: "('a \<Rightarrow> bool) \<Rightarrow> 'a list \<Rightarrow> nat option" where
  "findIndex p [] = None"
| "findIndex p (x # xs) = (if p x then Some 0 else map_option Suc (findIndex p xs))"

definition getTask ::
  "platform \<Rightarrow> string \<Rightarrow> world \<Rightarrow> (exn + task option) \<times> world" where
  "getTask P i w =
     (case loadTasks P w of
        (Tasks tasks, w1) \<Rightarrow> (Inr (List.find (\<lambda>t. task_id t = i) tasks), w1)
      | (v, w1) \<Rightarrow> (Inl (TypeError v ''find''), w1))"

text \<open>
  \<^verbatim>\<open>completeTask\<close>: \<^verbatim>\<open>find\<close> returns the element itself, not a copy, so the
  assignment \<^verbatim>\<open>task.completed = true\<close> changes the array at the position of the
  element found; the array saved is the loaded one with that position updated.
\<close>

definition completeTask ::
  "platform \<Rightarrow> string \<Rightarrow> world \<Rightarrow> (exn + task option) \<times> world" where
  "completeTask P i w =
     (case loadTasks P w of
        (Tasks tasks, w1) \<Rightarrow>
          (case List.find (\<lambda>t. task_id t = i) tasks of
             None \<Rightarrow> (Inr None, w1)
           | Some found \<Rightarrow>
               (let task = found\<lparr>completed := True\<rparr>;
                    tasks' = (case findIndex (\<lambda>t. task_id t = i) tasks of
                                None \<Rightarrow> tasks
                              | Some k \<Rightarrow> tasks[k := task])
                in (Inr (Some task), saveTasks P tasks' w1)))
      | (v, w1) \<Rightarrow> (Inl (TypeError v ''find''), w1))"

text \<open>
  \<^verbatim>\<open>deleteTask\<close>: \<^verbatim>\<open>tasks.splice(index, 1)\<close> takes the element at
  \<open>index\<close> out of the array and returns it.
\<close>

definition deleteTask ::
  "platform \<Rightarrow> string \<Rightarrow> world \<Rightarrow> (exn + task option) \<times> world" where
  "deleteTask P i w =
     (case loadTasks P w of
        (Tasks tasks, w1) \<Rightarrow>
          (case findIndex (\<lambda>t. task_id t = i) tasks of
             None \<Rightarrow> (Inr None, w1)
           | Some k \<Rightarrow>
               (let deleted = tasks ! k
                in (Inr (Some deleted), saveTasks P (take k tasks @ drop (Suc k) tasks) w1)))
      | (v, w1) \<Rightarrow> (Inl (TypeError v ''findIndex''), w1))"

section \<open>HTTP adapter\<close>

text \<open>
  A response is the status set with \<^verbatim>\<open>res.status\<close> (200 when the handler sets
  none) and the object passed to \<^verbatim>\<open>res.json\<close>. The three shapes of object the
  handlers build are \<^verbatim>\<open>{success, data, count}\<close>, \<^verbatim>\<open>{success, data}\<close> and
  \<^verbatim>\<open>{success, error}\<close>. In the first, \<open>data\<close> is what \<^verbatim>\<open>listTasks\<close>
  returned and \<open>count\<close> its \<^verbatim>\<open>length\<close> property: \<open>Listed\<close> when that is an
  array, \<open>ListedValue\<close> when it is not.

  A handler either sends a response (\<open>Inr\<close>) or lets an exception of the Task API
  pass (\<open>Inl\<close>); what the framework sends then is not part of the program.
\<close>

datatype http_body =
    Listed bool "task list" nat
  | ListedValue bool parsed jsvalue
  | Data bool task
  | Failed bool string

record http_response =
  status :: nat
  body :: http_body

text \<open>
  \<^verbatim>\<open>const { title } = req.body\<close> reads a property of the object that
  \<^verbatim>\<open>express.json()\<close> parsed from the request, given here by its keys and values
  (each key once); a property the object does not have reads as \<^verbatim>\<open>undefined\<close>.
  \<^verbatim>\<open>!title\<close> is true of the values JavaScript counts as false.
\<close>

definition property :: "(string \<times> jsvalue) list \<Rightarrow> string \<Rightarrow> jsvalue" where
  "property obj k = (case map_of obj k of None \<Rightarrow> Undefined | Some v \<Rightarrow> v)"

fun truthy :: "jsvalue \<Rightarrow> bool" where
  "truthy Undefined = False"
| "truthy Null = False"
| "truthy (Boolean b) = b"
| "truthy (Number n) = (n \<noteq> 0)"
| "truthy (String s) = (s \<noteq> [])"
| "truthy (Array xs) = True"
| "truthy (Object kvs) = True"

text \<open>
  \<^verbatim>\<open>GET /tasks\<close>. \<^verbatim>\<open>allTasks.length\<close> is the length of an array or of a
  string, the property of that name of an object, \<^verbatim>\<open>undefined\<close> on a number or a
  boolean, and a \<^verbatim>\<open>TypeError\<close> on \<^verbatim>\<open>null\<close>.
\<close>

definition get_tasks :: "platform \<Rightarrow> world \<Rightarrow> (exn + http_response) \<times> world" where
  "get_tasks P w =
     (case listTasks P w of
        (Tasks allTasks, w1) \<Rightarrow>
          (Inr \<lparr>status = 200, body = Listed True allTasks (length allTasks)\<rparr>, w1)
      | (NullValue, w1) \<Rightarrow> (Inl (TypeError NullValue ''length''), w1)
      | (StringValue s, w1) \<Rightarrow>
          (Inr \<lparr>status = 200,
                body = ListedValue True (StringValue s) (Number (of_nat (length s)))\<rparr>, w1)
      | (ObjectValue kvs, w1) \<Rightarrow>
          (Inr \<lparr>status = 200,
                body = ListedValue True (ObjectValue kvs) (property kvs ''length'')\<rparr>, w1)
      | (v, w1) \<Rightarrow> (Inr \<lparr>status = 200, body = ListedValue True v Undefined\<rparr>, w1))"

text \<open>
  \<^verbatim>\<open>POST /tasks\<close>, with the request's body and the two clock readings of
  \<^const>\<open>createTask\<close>.
\<close>

definition post_tasks ::
  "platform \<Rightarrow> int \<Rightarrow> int \<Rightarrow> (string \<times> jsvalue) list \<Rightarrow> world
   \<Rightarrow> (exn + http_response) \<times> world" where
  "post_tasks P now date req_body w =
     (let ttl = property req_body ''title''
      in if \<not> truthy ttl
         then (Inr \<lparr>status = 400, body = Failed False ''Title is required''\<rparr>, w)
         else (case createTask P now date ttl w of
                 (Inl e, w1) \<Rightarrow> (Inl e, w1)
               | (Inr task, w1) \<Rightarrow> (Inr \<lparr>status = 201, body = Data True task\<rparr>, w1)))"

text \<open>
  \<^verbatim>\<open>GET /tasks/:id\<close>, \<^verbatim>\<open>PATCH /tasks/:id/complete\<close> and
  \<^verbatim>\<open>DELETE /tasks/:id\<close>, with the string \<^verbatim>\<open>req.params.id\<close>. A task is an
  object, so \<^verbatim>\<open>!task\<close> is true exactly of \<^verbatim>\<open>undefined\<close> and \<^verbatim>\<open>null\<close>.
\<close>

definition get_task_by_id ::
  "platform \<Rightarrow> string \<Rightarrow> world \<Rightarrow> (exn + http_response) \<times> world" where
  "get_task_by_id P i w =
     (case getTask P i w of
        (Inl e, w1) \<Rightarrow> (Inl e, w1)
      | (Inr None, w1) \<Rightarrow> (Inr \<lparr>status = 404, body = Failed False ''Task not found''\<rparr>, w1)
      | (Inr (Some task), w1) \<Rightarrow> (Inr \<lparr>status = 200, body = Data True task\<rparr>, w1))"

definition patch_task_complete ::
  "platform \<Rightarrow> string \<Rightarrow> world \<Rightarrow> (exn + http_response) \<times> world" where
  "patch_task_complete P i w =
     (case completeTask P i w of
        (Inl e, w1) \<Rightarrow> (Inl e, w1)
      | (Inr None, w1) \<Rightarrow> (Inr \<lparr>status = 404, body = Failed False ''Task not found''\<rparr>, w1)
      | (Inr (Some task), w1) \<Rightarrow> (Inr \<lparr>status = 200, body = Data True task\<rparr>, w1))"

definition delete_task_by_id ::
  "platform \<Rightarrow> string \<Rightarrow> world \<Rightarrow> (exn + http_response) \<times> world" where
  "delete_task_by_id P i w =
     (case deleteTask P i w of
        (Inl e, w1) \<Rightarrow> (Inl e, w1)
      | (Inr None, w1) \<Rightarrow> (Inr \<lparr>status = 404, body = Failed False ''Task not found''\<rparr>, w1)
      | (Inr (Some deleted), w1) \<Rightarrow> (Inr \<lparr>status = 200, body = Data True deleted\<rparr>, w1))"

section \<open>Tool adapter\<close>

text \<open>
  The result of a tool call: the text of its one content element and the error flag
  (false where the handler leaves \<^verbatim>\<open>isError\<close> out).
\<close>

record tool_result =
  text_of :: string
  isError :: bool

text \<open>
  The handler of tool calls on the branch \<^verbatim>\<open>case "create_task"\<close>. The arguments of
  a call are an object, or absent (\<open>None\<close>); \<^verbatim>\<open>!args\<close> is true only when they are
  absent. \<^verbatim>\<open>args.title as string\<close> reads the property and checks nothing. An
  exception of \<^verbatim>\<open>createTask\<close> is caught, and its message returned with the error
  flag.
\<close>

definition call_create_task ::
  "platform \<Rightarrow> int \<Rightarrow> int \<Rightarrow> (string \<times> jsvalue) list option \<Rightarrow> world \<Rightarrow> tool_result \<times> world" where
  "call_create_task P now date arguments w =
     (case arguments of
        None \<Rightarrow> (\<lparr>text_of = ''No arguments provided'', isError = True\<rparr>, w)
      | Some args \<Rightarrow>
          (case createTask P now date (property args ''title'') w of
             (Inr task, w1) \<Rightarrow>
               (\<lparr>text_of = ''Task created successfully:'' @ [CHR 0x0A]
                    @ JSON_stringify_task P task,
                  isError = False\<rparr>, w1)
           | (Inl e, w1) \<Rightarrow> (\<lparr>text_of = ''Error: '' @ message P e, isError = True\<rparr>, w1)))"

section \<open>A sample platform\<close>

text \<open>
  The theorems below hold for every platform. To exercise them on concrete requests, this
  section fixes one: its text of a collection is a compact rendering of the records, and
  its parser recognises \<^verbatim>\<open>null\<close>, \<^verbatim>\<open>{}\<close> and the texts of the collections
  listed in \<open>sample_collections\<close>, and throws on every other text.
\<close>

definition milk :: task where
  "milk = \<lparr>task_id = ''1700000000000'', title = String ''Buy milk'', completed = False,
           createdAt = ''2023-11-14T22:13:20.000Z''\<rparr>"

definition tea :: task where
  "tea = \<lparr>task_id = ''1700000000500'', title = String ''Make tea'', completed = False,
          createdAt = ''2023-11-14T22:13:20.500Z''\<rparr>"

definition milk_again :: task where
  "milk_again = \<lparr>task_id = ''1700000000000'', title = String ''Buy more milk'',
                 completed = False, createdAt = ''2023-11-14T22:13:20.000Z''\<rparr>"

definition untitled :: task where
  "untitled = \<lparr>task_id = ''1700000000000'', title = String [], completed = False,
               createdAt = ''2023-11-14T22:13:20.000Z''\<rparr>"

definition sample_collections :: "task list list" where
  "sample_collections =
     [[], [milk], [milk, tea], [tea], [milk\<lparr>completed := True\<rparr>, tea],
      [tea, milk, milk_again], [tea, milk\<lparr>completed := True\<rparr>, milk_again], [untitled]]"

fun sample_title :: "jsvalue \<Rightarrow> string" where
  "sample_title (String s) = ''<'' @ s @ ''>''"
| "sample_title v = ''null''"

definition sample_task_text :: "task \<Rightarrow> string" where
  "sample_task_text t =
     ''{id:'' @ task_id t @ '',title:'' @ sample_title (title t) @ '',completed:''
     @ (if completed t then ''true'' else ''false'') @ '',createdAt:'' @ createdAt t @ ''}''"

definition sample_text :: "task list \<Rightarrow> string" where
  "sample_text ts = ''['' @ concat (map sample_task_text ts) @ '']''"

definition sample_parse :: "string \<Rightarrow> parsed option" where
  "sample_parse s =
     (if s = ''null'' then Some NullValue
      else if s = ''{}'' then Some (ObjectValue [])
      else map_option Tasks (List.find (\<lambda>ts. sample_text ts = s) sample_collections))"

fun sample_message :: "exn \<Rightarrow> string" where
  "sample_message (TypeError NullValue m) =
     ''Cannot read properties of null (reading '' @ [CHR 0x27] @ m @ [CHR 0x27] @ '')''"
| "sample_message (TypeError v m) = ''tasks.'' @ m @ '' is not a function''"

definition sample :: platform where
  "sample = \<lparr>JSON_parse = sample_parse, JSON_stringify = sample_text,
             JSON_stringify_task = sample_task_text, message = sample_message\<rparr>"

text \<open>A world whose file holds a collection, and the world of the first run.\<close>

definition disk :: "task list \<Rightarrow> world" where
  "disk ts = \<lparr>tasks_file = Some (sample_text ts), readable = True, writable = True,
              console = []\<rparr>"

definition first_run :: world where
  "first_run = \<lparr>tasks_file = None, readable = True, writable = True, console = []\<rparr>"

section \<open>Auxiliary facts\<close>

subsection \<open>The store\<close>

lemma loadTasks_tasks_file: "tasks_file (snd (loadTasks P w)) = tasks_file w"
  by (simp add: loadTasks_def console_error_def split: option.splits)

lemma loadTasks_readable: "readable (snd (loadTasks P w)) = readable w"
  by (simp add: loadTasks_def console_error_def split: option.splits)

lemma loadTasks_writable: "writable (snd (loadTasks P w)) = writable w"
  by (simp add: loadTasks_def console_error_def split: option.splits)

lemma loadTasks_reload: "fst (loadTasks P (snd (loadTasks P w))) = fst (loadTasks P w)"
  by (simp add: loadTasks_def console_error_def split: option.splits)

lemma loaded_world:
  assumes "loadTasks P w = (v, w1)"
  shows "tasks_file w1 = tasks_file w \<and> readable w1 = readable w \<and> writable w1 = writable w
         \<and> fst (loadTasks P w1) = v"
proof -
  have "w1 = snd (loadTasks P w)" and "v = fst (loadTasks P w)"
    using assms by simp_all
  then show ?thesis
    by (simp add: loadTasks_tasks_file loadTasks_readable loadTasks_writable loadTasks_reload)
qed

lemma loadTasks_saveTasks:
  assumes "writable w" and "readable w"
    and "JSON_parse P (JSON_stringify P tasks) = Some (Tasks tasks)"
  shows "loadTasks P (saveTasks P tasks w) = (Tasks tasks, saveTasks P tasks w)"
  using assms by (simp add: loadTasks_def saveTasks_def)

text \<open>A write that fails is logged and leaves the file as it was.\<close>

lemma saveTasks_failed:
  "\<not> writable w \<Longrightarrow>
   saveTasks P tasks w = w\<lparr>console := console w @ [''Error saving tasks:'']\<rparr>"
  by (simp add: saveTasks_def console_error_def)

lemma saveTasks_again:
  "writable w \<Longrightarrow> saveTasks P tasks (saveTasks P tasks w) = saveTasks P tasks w"
  by (simp add: saveTasks_def)

subsection \<open>Searching a collection\<close>

lemma findIndex_absent: "\<forall>x\<in>set xs. \<not> p x \<Longrightarrow> findIndex p xs = None"
  by (induction xs) auto

lemma find_absent: "\<forall>x\<in>set xs. \<not> p x \<Longrightarrow> List.find p xs = None"
  by (induction xs) auto

lemma findIndex_first:
  "\<forall>x\<in>set pre. \<not> p x \<Longrightarrow> p t \<Longrightarrow> findIndex p (pre @ t # post) = Some (length pre)"
  by (induction pre) auto

lemma find_first:
  "\<forall>x\<in>set pre. \<not> p x \<Longrightarrow> p t \<Longrightarrow> List.find p (pre @ t # post) = Some t"
  by (induction pre) auto

text \<open>
  A collection that holds a task with the id splits at the first such task, so the
  theorems stated on \<open>pre @ t # post\<close> cover every collection in which the id is present.
\<close>

lemma first_match_split:
  assumes "\<exists>x\<in>set tasks. task_id x = i"
  shows "\<exists>pre t post. tasks = pre @ t # post \<and> task_id t = i \<and> (\<forall>x\<in>set pre. task_id x \<noteq> i)"
  using assms split_list_first_prop [of tasks "\<lambda>x. task_id x = i"] by blast

subsection \<open>The operations at the first match\<close>

lemma getTask_first:
  assumes "loadTasks P w = (Tasks (pre @ t # post), w1)"
    and "\<forall>x\<in>set pre. task_id x \<noteq> i" and "task_id t = i"
  shows "getTask P i w = (Inr (Some t), w1)"
  using assms by (simp add: getTask_def find_first)

lemma completeTask_first:
  assumes "loadTasks P w = (Tasks (pre @ t # post), w1)"
    and "\<forall>x\<in>set pre. task_id x \<noteq> i" and "task_id t = i"
  shows "completeTask P i w =
           (Inr (Some (t\<lparr>completed := True\<rparr>)),
            saveTasks P (pre @ t\<lparr>completed := True\<rparr> # post) w1)"
  using assms by (simp add: completeTask_def find_first findIndex_first Let_def)

lemma deleteTask_first:
  assumes "loadTasks P w = (Tasks (pre @ t # post), w1)"
    and "\<forall>x\<in>set pre. task_id x \<noteq> i" and "task_id t = i"
  shows "deleteTask P i w = (Inr (Some t), saveTasks P (pre @ post) w1)"
  using assms by (simp add: deleteTask_def findIndex_first)

subsection \<open>Clock readings\<close>

lemma digits_nonempty: "digits n \<noteq> []"
  by (subst digits.simps) simp

lemma Number_toString_nonempty: "Number_toString n \<noteq> []"
  by (simp add: Number_toString_def digits_nonempty)

lemma toISOString_nonempty: "toISOString t \<noteq> []"
  by (simp add: toISOString_def Let_def split: prod.splits)

lemma digits_less: "n < 10 \<Longrightarrow> digits n = [''0123456789'' ! n]"
  by (subst digits.simps) simp

lemma digits_more:
  "\<not> n < 10 \<Longrightarrow> digits n = digits (n div 10) @ [''0123456789'' ! (n mod 10)]"
  by (subst digits.simps) simp

lemma replicate_step: "0 < n \<Longrightarrow> replicate n c = c # replicate (n - 1) c"
  by (cases n) simp_all

lemmas clock_eval =
  Number_toString_def toISOString_def civil_from_days_def year_string_def pad_def
  digits_less digits_more replicate_step

lemma clock_first:
  "Number_toString 1700000000000 = ''1700000000000''"
  "toISOString 1700000000000 = ''2023-11-14T22:13:20.000Z''"
  by (simp_all add: clock_eval cong: let_weak_cong)

lemma clock_second:
  "Number_toString 1700000000500 = ''1700000000500''"
  "toISOString 1700000000500 = ''2023-11-14T22:13:20.500Z''"
  by (simp_all add: clock_eval cong: let_weak_cong)

subsection \<open>The sample platform\<close>

lemma sample_reads_back_all:
  "\<forall>ts\<in>set sample_collections. sample_parse (sample_text ts) = Some (Tasks ts)"
  by (simp add: sample_collections_def sample_parse_def sample_text_def
      sample_task_text_def milk_def tea_def milk_again_def untitled_def)

lemma sample_reads_back:
  "ts \<in> set sample_collections \<Longrightarrow> sample_parse (sample_text ts) = Some (Tasks ts)"
  using sample_reads_back_all by blast

lemma sample_rejects: "sample_parse ''{oops'' = None"
  by (simp add: sample_collections_def sample_parse_def sample_text_def sample_task_text_def
      milk_def tea_def milk_again_def untitled_def)

lemma load_disk:
  "ts \<in> set sample_collections \<Longrightarrow> loadTasks sample (disk ts) = (Tasks ts, disk ts)"
  by (simp add: loadTasks_def disk_def sample_def sample_reads_back)

lemma load_first_run: "loadTasks sample first_run = (Tasks [], first_run)"
  by (simp add: loadTasks_def first_run_def)

lemma save_disk: "saveTasks sample ts (disk ts0) = disk ts"
  by (simp add: saveTasks_def disk_def sample_def)

lemma save_first_run: "saveTasks sample ts first_run = disk ts"
  by (simp add: saveTasks_def disk_def first_run_def sample_def)

lemma sample_known:
  "[] \<in> set sample_collections"
  "[milk] \<in> set sample_collections"
  "[milk, tea] \<in> set sample_collections"
  "[tea] \<in> set sample_collections"
  "[milk\<lparr>completed := True\<rparr>, tea] \<in> set sample_collections"
  "[tea, milk, milk_again] \<in> set sample_collections"
  "[tea, milk\<lparr>completed := True\<rparr>, milk_again] \<in> set sample_collections"
  "[untitled] \<in> set sample_collections"
  by (simp_all add: sample_collections_def)

section \<open>Store: what loading returns\<close>

text \<open>
  What \<^verbatim>\<open>loadTasks\<close> does by design: the empty collection and nothing logged when
  the file does not exist; one line in the error log and the empty collection when the
  read fails or \<^verbatim>\<open>JSON.parse\<close> throws on the text.
\<close>

lemma loadTasks_fail_soft:
  "(tasks_file w = None \<longrightarrow> loadTasks P w = (Tasks [], w)) \<and>
   (tasks_file w = Some data \<and> (\<not> readable w \<or> JSON_parse P data = None) \<longrightarrow>
      loadTasks P w = (Tasks [], w\<lparr>console := console w @ [''Error loading tasks:'']\<rparr>))"
  by (auto simp add: loadTasks_def console_error_def)

text \<open>
  What it does with a text that \<^verbatim>\<open>JSON.parse\<close> accepts: it returns the value
  parsed, whatever it is, and logs nothing.
\<close>

lemma loadTasks_unchecked:
  "tasks_file w = Some data \<Longrightarrow> readable w \<Longrightarrow> JSON_parse P data = Some v \<Longrightarrow>
   loadTasks P w = (v, w)"
  by (simp add: loadTasks_def)

lemma sample_null: "sample_parse ''null'' = Some NullValue"
  by (simp add: sample_parse_def)

lemma sample_empty_object: "sample_parse ''{}'' = Some (ObjectValue [])"
  by (simp add: sample_parse_def)

text \<open>
  C6. \<^verbatim>\<open>loadTasks\<close> returns an empty sequence when the file does not exist, and
  when the file exists with malformed contents it logs the failure and returns an empty
  sequence instead of propagating an error. The first half holds, and so does the second
  for a text that is not JSON (\<open>loadTasks_fail_soft\<close>). For a text that is JSON and not
  an array the code does neither: on a file holding \<^verbatim>\<open>null\<close>, and on one holding
  \<^verbatim>\<open>{}\<close>, \<^verbatim>\<open>loadTasks\<close> returns that value and logs nothing, and
  \<^verbatim>\<open>createTask\<close> and \<^verbatim>\<open>getTask\<close> then raise a \<^verbatim>\<open>TypeError\<close>.
\<close>

theorem loadTasks_returns_what_was_parsed:
  "loadTasks sample (first_run\<lparr>tasks_file := Some ''null''\<rparr>)
     = (NullValue, first_run\<lparr>tasks_file := Some ''null''\<rparr>)
   \<and> console (snd (loadTasks sample (first_run\<lparr>tasks_file := Some ''null''\<rparr>))) = []
   \<and> createTask sample 1700000000000 1700000000000 (String ''Buy milk'')
         (first_run\<lparr>tasks_file := Some ''null''\<rparr>)
       = (Inl (TypeError NullValue ''push''), first_run\<lparr>tasks_file := Some ''null''\<rparr>)
   \<and> getTask sample ''1700000000000'' (first_run\<lparr>tasks_file := Some ''null''\<rparr>)
       = (Inl (TypeError NullValue ''find''), first_run\<lparr>tasks_file := Some ''null''\<rparr>)
   \<and> loadTasks sample (first_run\<lparr>tasks_file := Some ''{}''\<rparr>)
       = (ObjectValue [], first_run\<lparr>tasks_file := Some ''{}''\<rparr>)
   \<and> createTask sample 1700000000000 1700000000000 (String ''Buy milk'')
         (first_run\<lparr>tasks_file := Some ''{}''\<rparr>)
       = (Inl (TypeError (ObjectValue []) ''push''), first_run\<lparr>tasks_file := Some ''{}''\<rparr>)"
proof -
  have n: "loadTasks sample (first_run\<lparr>tasks_file := Some ''null''\<rparr>)
           = (NullValue, first_run\<lparr>tasks_file := Some ''null''\<rparr>)"
    by (simp add: loadTasks_def first_run_def sample_def sample_parse_def)
  have e: "loadTasks sample (first_run\<lparr>tasks_file := Some ''{}''\<rparr>)
           = (ObjectValue [], first_run\<lparr>tasks_file := Some ''{}''\<rparr>)"
    by (simp add: loadTasks_def first_run_def sample_def sample_parse_def)
  have "console (first_run\<lparr>tasks_file := Some ''null''\<rparr>) = []"
    by (simp add: first_run_def)
  then show ?thesis
    by (simp add: n e createTask_def getTask_def)
qed

section \<open>Task API: creating, completing and deleting\<close>

text \<open>
  C2. For every title and every prior collection (what \<^verbatim>\<open>loadTasks\<close> returns),
  \<^verbatim>\<open>createTask\<close> returns a record that is not completed, whose id and creation
  time are not empty and whose title is the one given; it saves the loaded collection
  with exactly that record appended at the end; when the write succeeds the file holds
  the text of that collection, and when the text is read back the record is in the
  result of \<^verbatim>\<open>listTasks\<close>, at the end of it. In particular this holds for every
  non-empty title string.
\<close>

theorem createTask_appends:
  assumes "loadTasks P w = (Tasks tasks, w1)"
    and "createTask P now date ttl w = (r, w')"
  shows "(\<exists>task. r = Inr task
           \<and> completed task = False \<and> task_id task \<noteq> [] \<and> createdAt task \<noteq> []
           \<and> title task = ttl
           \<and> w' = saveTasks P (tasks @ [task]) w1
           \<and> (writable w \<longrightarrow> tasks_file w' = Some (JSON_stringify P (tasks @ [task])))
           \<and> (writable w \<and> readable w
                \<and> JSON_parse P (JSON_stringify P (tasks @ [task])) = Some (Tasks (tasks @ [task]))
                \<longrightarrow> fst (listTasks P w') = Tasks (tasks @ [task])
                    \<and> (\<exists>listed. fst (listTasks P w') = Tasks listed \<and> task \<in> set listed)))"
proof -
  define task where "task = \<lparr>task_id = Number_toString now, title = ttl, completed = False,
                               createdAt = toISOString date\<rparr>"
  have r: "r = Inr task" and w': "w' = saveTasks P (tasks @ [task]) w1"
    using assms by (auto simp add: createTask_def Let_def task_def)
  have flags: "readable w1 = readable w" "writable w1 = writable w"
    using loaded_world [OF assms(1)] by simp_all
  have fields: "completed task = False \<and> task_id task \<noteq> [] \<and> createdAt task \<noteq> []
      \<and> title task = ttl"
    by (simp add: task_def Number_toString_nonempty toISOString_nonempty)
  have written: "writable w \<longrightarrow> tasks_file w' = Some (JSON_stringify P (tasks @ [task]))"
    by (simp add: w' saveTasks_def flags)
  have listed: "fst (listTasks P w') = Tasks (tasks @ [task])
      \<and> (\<exists>listed. fst (listTasks P w') = Tasks listed \<and> task \<in> set listed)"
    if "writable w \<and> readable w
        \<and> JSON_parse P (JSON_stringify P (tasks @ [task])) = Some (Tasks (tasks @ [task]))"
    using that by (simp add: listTasks_def w' loadTasks_saveTasks flags)
  show ?thesis
    using r fields w' written listed by blast
qed

theorem createTask_appends_witness:
  "loadTasks sample (disk [milk]) = (Tasks [milk], disk [milk])
   \<and> createTask sample 1700000000500 1700000000500 (String ''Make tea'') (disk [milk])
       = (Inr tea, disk [milk, tea])
   \<and> writable (disk [milk]) \<and> readable (disk [milk])
   \<and> JSON_parse sample (JSON_stringify sample ([milk] @ [tea])) = Some (Tasks ([milk] @ [tea]))
   \<and> completed tea = False \<and> task_id tea \<noteq> [] \<and> createdAt tea \<noteq> []
   \<and> title tea = String ''Make tea''
   \<and> tasks_file (disk [milk, tea]) = Some (JSON_stringify sample ([milk] @ [tea]))
   \<and> fst (listTasks sample (disk [milk, tea])) = Tasks ([milk] @ [tea])"
proof -
  have l: "loadTasks sample (disk [milk]) = (Tasks [milk], disk [milk])"
    by (simp add: load_disk sample_known)
  have c: "createTask sample 1700000000500 1700000000500 (String ''Make tea'') (disk [milk])
           = (Inr tea, disk [milk, tea])"
    by (simp add: createTask_def l clock_second save_disk tea_def Let_def)
  have ok: "writable (disk [milk]) \<and> readable (disk [milk])
            \<and> JSON_parse sample (JSON_stringify sample ([milk] @ [tea]))
                = Some (Tasks ([milk] @ [tea]))"
    by (simp add: disk_def sample_def sample_reads_back sample_known)
  show ?thesis
    using createTask_appends [OF l c] l c ok by (auto simp add: save_disk)
qed

text \<open>
  C3. When no task of the collection has the id, \<^verbatim>\<open>getTask\<close>,
  \<^verbatim>\<open>completeTask\<close> and \<^verbatim>\<open>deleteTask\<close> each return not-found and write
  nothing: the world they return is the one \<^verbatim>\<open>loadTasks\<close> left, its file is the
  file from before the call, and the collection loaded from it is the same.
\<close>

theorem absent_id_not_found:
  assumes "loadTasks P w = (Tasks tasks, w1)"
    and "\<forall>t\<in>set tasks. task_id t \<noteq> i"
  shows "getTask P i w = (Inr None, w1) \<and> completeTask P i w = (Inr None, w1)
         \<and> deleteTask P i w = (Inr None, w1)
         \<and> tasks_file w1 = tasks_file w \<and> fst (loadTasks P w1) = Tasks tasks"
  using assms loaded_world [OF assms(1)]
  by (simp add: getTask_def completeTask_def deleteTask_def find_absent findIndex_absent)

theorem absent_id_not_found_witness:
  "loadTasks sample (disk [milk, tea]) = (Tasks [milk, tea], disk [milk, tea])
   \<and> task_id milk \<noteq> ''42'' \<and> task_id tea \<noteq> ''42''
   \<and> getTask sample ''42'' (disk [milk, tea]) = (Inr None, disk [milk, tea])
   \<and> completeTask sample ''42'' (disk [milk, tea]) = (Inr None, disk [milk, tea])
   \<and> deleteTask sample ''42'' (disk [milk, tea]) = (Inr None, disk [milk, tea])
   \<and> fst (loadTasks sample (disk [milk, tea])) = Tasks [milk, tea]"
proof -
  have l: "loadTasks sample (disk [milk, tea]) = (Tasks [milk, tea], disk [milk, tea])"
    by (simp add: load_disk sample_known)
  have a: "\<forall>t\<in>set [milk, tea]. task_id t \<noteq> ''42''"
    by (simp add: milk_def tea_def)
  show ?thesis
    using absent_id_not_found [OF l a] l a by simp
qed

text \<open>
  C4. When \<open>t\<close> is the first task of the collection with the id,
  \<^verbatim>\<open>completeTask\<close> returns \<open>t\<close> with its flag set, and the collection then
  holds that record in place of \<open>t\<close>. A second call with the same id succeeds again,
  returns the same record, and leaves the world exactly as the first call left it. The
  collection after the first call is the one persisted: the write succeeded and the text
  is read back.
\<close>

theorem completeTask_idempotent:
  assumes "loadTasks P w = (Tasks (pre @ t # post), w1)"
    and "\<forall>x\<in>set pre. task_id x \<noteq> i" and "task_id t = i"
    and "writable w" and "readable w"
    and "JSON_parse P (JSON_stringify P (pre @ t\<lparr>completed := True\<rparr> # post))
         = Some (Tasks (pre @ t\<lparr>completed := True\<rparr> # post))"
    and "completeTask P i w = (r, w')"
  shows "r = Inr (Some (t\<lparr>completed := True\<rparr>)) \<and> completed (t\<lparr>completed := True\<rparr>)
         \<and> fst (listTasks P w') = Tasks (pre @ t\<lparr>completed := True\<rparr> # post)
         \<and> completeTask P i w' = (r, w')"
proof -
  let ?t = "t\<lparr>completed := True\<rparr>"
  have flags: "readable w1 = readable w" "writable w1 = writable w"
    using loaded_world [OF assms(1)] by simp_all
  have first: "r = Inr (Some ?t)" "w' = saveTasks P (pre @ ?t # post) w1"
    using completeTask_first [OF assms(1-3)] assms(7) by simp_all
  have reload: "loadTasks P w' = (Tasks (pre @ ?t # post), w')"
    using assms(4-6) by (simp add: first loadTasks_saveTasks flags)
  have "task_id ?t = i"
    using assms(3) by simp
  from completeTask_first [OF reload assms(2) this]
  have "completeTask P i w' = (Inr (Some ?t), saveTasks P (pre @ ?t # post) w')"
    by simp
  moreover have "saveTasks P (pre @ ?t # post) w' = w'"
    using assms(4) by (simp add: first saveTasks_again flags)
  ultimately show ?thesis
    using reload by (simp add: first listTasks_def)
qed

theorem completeTask_idempotent_witness:
  "loadTasks sample (disk [milk, tea]) = (Tasks ([] @ milk # [tea]), disk [milk, tea])
   \<and> task_id milk = ''1700000000000''
   \<and> writable (disk [milk, tea]) \<and> readable (disk [milk, tea])
   \<and> JSON_parse sample (JSON_stringify sample ([] @ milk\<lparr>completed := True\<rparr> # [tea]))
       = Some (Tasks ([] @ milk\<lparr>completed := True\<rparr> # [tea]))
   \<and> completeTask sample ''1700000000000'' (disk [milk, tea])
       = (Inr (Some (milk\<lparr>completed := True\<rparr>)), disk [milk\<lparr>completed := True\<rparr>, tea])
   \<and> completed (milk\<lparr>completed := True\<rparr>)
   \<and> fst (listTasks sample (disk [milk\<lparr>completed := True\<rparr>, tea]))
       = Tasks [milk\<lparr>completed := True\<rparr>, tea]
   \<and> completeTask sample ''1700000000000'' (disk [milk\<lparr>completed := True\<rparr>, tea])
       = (Inr (Some (milk\<lparr>completed := True\<rparr>)), disk [milk\<lparr>completed := True\<rparr>, tea])"
proof -
  have l: "loadTasks sample (disk [milk, tea]) = (Tasks ([] @ milk # [tea]), disk [milk, tea])"
    by (simp add: load_disk sample_known)
  have a: "\<forall>x\<in>set []. task_id x \<noteq> ''1700000000000''"
    by simp
  have m: "task_id milk = ''1700000000000''"
    by (simp add: milk_def)
  have w: "writable (disk [milk, tea])" and r: "readable (disk [milk, tea])"
    by (simp_all add: disk_def)
  have c: "JSON_parse sample (JSON_stringify sample ([] @ milk\<lparr>completed := True\<rparr> # [tea]))
           = Some (Tasks ([] @ milk\<lparr>completed := True\<rparr> # [tea]))"
    by (simp add: sample_def sample_reads_back sample_known)
  have f: "completeTask sample ''1700000000000'' (disk [milk, tea])
           = (Inr (Some (milk\<lparr>completed := True\<rparr>)), disk [milk\<lparr>completed := True\<rparr>, tea])"
    using completeTask_first [OF l a m] by (simp add: save_disk)
  show ?thesis
    using completeTask_idempotent [OF l a m w r c f] l a m w r c f by (simp add: save_disk)
qed

text \<open>
  C5. When \<open>t\<close> is the first task of the collection with the id,
  \<^verbatim>\<open>deleteTask\<close> returns \<open>t\<close> and saves the collection without it and with
  every other record in place, one record shorter. Once that collection is persisted,
  \<^verbatim>\<open>listTasks\<close> returns it, and \<^verbatim>\<open>getTask\<close> with the id returns
  not-found when no later record carried the same id.
\<close>

theorem deleteTask_removes_first:
  assumes "loadTasks P w = (Tasks (pre @ t # post), w1)"
    and "\<forall>x\<in>set pre. task_id x \<noteq> i" and "task_id t = i"
    and "deleteTask P i w = (r, w')"
  shows "r = Inr (Some t) \<and> w' = saveTasks P (pre @ post) w1
         \<and> length (pre @ post) + 1 = length (pre @ t # post)
         \<and> (writable w \<and> readable w
              \<and> JSON_parse P (JSON_stringify P (pre @ post)) = Some (Tasks (pre @ post))
              \<longrightarrow> fst (listTasks P w') = Tasks (pre @ post)
                  \<and> ((\<forall>x\<in>set post. task_id x \<noteq> i) \<longrightarrow> fst (getTask P i w') = Inr None))"
proof -
  have flags: "readable w1 = readable w" "writable w1 = writable w"
    using loaded_world [OF assms(1)] by simp_all
  have res: "r = Inr (Some t)" "w' = saveTasks P (pre @ post) w1"
    using deleteTask_first [OF assms(1-3)] assms(4) by simp_all
  have after: "fst (listTasks P w') = Tasks (pre @ post)
      \<and> ((\<forall>x\<in>set post. task_id x \<noteq> i) \<longrightarrow> fst (getTask P i w') = Inr None)"
    if ok: "writable w \<and> readable w
            \<and> JSON_parse P (JSON_stringify P (pre @ post)) = Some (Tasks (pre @ post))"
  proof -
    have reload: "loadTasks P w' = (Tasks (pre @ post), w')"
      using ok by (simp add: res loadTasks_saveTasks flags)
    have "fst (getTask P i w') = Inr None" if "\<forall>x\<in>set post. task_id x \<noteq> i"
    proof -
      have "\<forall>x\<in>set (pre @ post). task_id x \<noteq> i"
        using assms(2) that by auto
      then show ?thesis
        by (simp add: getTask_def reload find_absent)
    qed
    then show ?thesis
      using reload by (simp add: listTasks_def)
  qed
  show ?thesis
    using res after by simp
qed

theorem deleteTask_removes_first_witness:
  "loadTasks sample (disk [milk, tea]) = (Tasks ([] @ milk # [tea]), disk [milk, tea])
   \<and> task_id milk = ''1700000000000''
   \<and> deleteTask sample ''1700000000000'' (disk [milk, tea]) = (Inr (Some milk), disk [tea])
   \<and> writable (disk [milk, tea]) \<and> readable (disk [milk, tea])
   \<and> JSON_parse sample (JSON_stringify sample ([] @ [tea])) = Some (Tasks ([] @ [tea]))
   \<and> task_id tea \<noteq> ''1700000000000''
   \<and> length ([] @ [tea]) + 1 = length ([] @ milk # [tea])
   \<and> fst (listTasks sample (disk [tea])) = Tasks [tea]
   \<and> fst (getTask sample ''1700000000000'' (disk [tea])) = Inr None"
proof -
  have l: "loadTasks sample (disk [milk, tea]) = (Tasks ([] @ milk # [tea]), disk [milk, tea])"
    by (simp add: load_disk sample_known)
  have a: "\<forall>x\<in>set []. task_id x \<noteq> ''1700000000000''"
    by simp
  have m: "task_id milk = ''1700000000000''"
    by (simp add: milk_def)
  have d: "deleteTask sample ''1700000000000'' (disk [milk, tea])
           = (Inr (Some milk), disk [tea])"
    using deleteTask_first [OF l a m] by (simp add: save_disk)
  have ok: "writable (disk [milk, tea]) \<and> readable (disk [milk, tea])
            \<and> JSON_parse sample (JSON_stringify sample ([] @ [tea])) = Some (Tasks ([] @ [tea]))"
    by (simp add: disk_def sample_def sample_reads_back sample_known)
  have o: "\<forall>x\<in>set [tea]. task_id x \<noteq> ''1700000000000''"
    by (simp add: tea_def)
  show ?thesis
    using deleteTask_removes_first [OF l a m d] l a m d ok o by (simp add: save_disk)
qed

text \<open>
  C8. A task matches when its id and the id asked for are the same string. Whatever
  follows it in the collection, also further tasks with the same id, the first task in
  storage order that matches is the one \<^verbatim>\<open>getTask\<close> returns, the one
  \<^verbatim>\<open>completeTask\<close> sets the flag of and returns, and the one \<^verbatim>\<open>deleteTask\<close>
  takes out and returns.
\<close>

theorem first_match_wins:
  assumes "loadTasks P w = (Tasks (pre @ t # post), w1)"
    and "\<forall>x\<in>set pre. task_id x \<noteq> i" and "task_id t = i"
  shows "getTask P i w = (Inr (Some t), w1)
         \<and> completeTask P i w =
             (Inr (Some (t\<lparr>completed := True\<rparr>)),
              saveTasks P (pre @ t\<lparr>completed := True\<rparr> # post) w1)
         \<and> deleteTask P i w = (Inr (Some t), saveTasks P (pre @ post) w1)"
  using getTask_first [OF assms] completeTask_first [OF assms] deleteTask_first [OF assms]
  by simp

theorem first_match_wins_witness:
  "loadTasks sample (disk [tea, milk, milk_again])
     = (Tasks ([tea] @ milk # [milk_again]), disk [tea, milk, milk_again])
   \<and> task_id tea \<noteq> ''1700000000000''
   \<and> task_id milk = ''1700000000000'' \<and> task_id milk_again = ''1700000000000''
   \<and> getTask sample ''1700000000000'' (disk [tea, milk, milk_again])
       = (Inr (Some milk), disk [tea, milk, milk_again])
   \<and> completeTask sample ''1700000000000'' (disk [tea, milk, milk_again])
       = (Inr (Some (milk\<lparr>completed := True\<rparr>)),
          disk [tea, milk\<lparr>completed := True\<rparr>, milk_again])
   \<and> deleteTask sample ''1700000000000'' (disk [tea, milk, milk_again])
       = (Inr (Some milk), disk [tea, milk_again])"
proof -
  have l: "loadTasks sample (disk [tea, milk, milk_again])
           = (Tasks ([tea] @ milk # [milk_again]), disk [tea, milk, milk_again])"
    by (simp add: load_disk sample_known)
  have a: "\<forall>x\<in>set [tea]. task_id x \<noteq> ''1700000000000''"
    by (simp add: tea_def)
  have m: "task_id milk = ''1700000000000''"
    by (simp add: milk_def)
  have d: "task_id milk_again = ''1700000000000''"
    by (simp add: milk_again_def)
  show ?thesis
    using first_match_wins [OF l a m] l a m d by (simp add: save_disk)
qed

text \<open>
  C10. When \<open>t\<close> is the first task of the collection with the id, the collection that
  \<^verbatim>\<open>completeTask\<close> saves differs from the loaded one only in the flag of that
  task: it has the same length; at the position of \<open>t\<close> it holds a record with the id,
  the title and the creation time of \<open>t\<close> and the flag set; at every other position it
  holds the record the loaded collection holds there. Once persisted, this is the
  collection \<^verbatim>\<open>listTasks\<close> returns.
\<close>

theorem completeTask_frame:
  assumes "loadTasks P w = (Tasks (pre @ t # post), w1)"
    and "\<forall>x\<in>set pre. task_id x \<noteq> i" and "task_id t = i"
    and "tasks' = pre @ t\<lparr>completed := True\<rparr> # post"
  shows "snd (completeTask P i w) = saveTasks P tasks' w1
         \<and> length tasks' = length (pre @ t # post)
         \<and> task_id (tasks' ! length pre) = task_id t
         \<and> title (tasks' ! length pre) = title t
         \<and> createdAt (tasks' ! length pre) = createdAt t
         \<and> completed (tasks' ! length pre) = True
         \<and> (\<forall>j < length tasks'. j \<noteq> length pre \<longrightarrow> tasks' ! j = (pre @ t # post) ! j)
         \<and> (writable w \<and> readable w
              \<and> JSON_parse P (JSON_stringify P tasks') = Some (Tasks tasks')
              \<longrightarrow> fst (listTasks P (snd (completeTask P i w))) = Tasks tasks')"
proof -
  have flags: "readable w1 = readable w" "writable w1 = writable w"
    using loaded_world [OF assms(1)] by simp_all
  have saved: "snd (completeTask P i w) = saveTasks P tasks' w1"
    using completeTask_first [OF assms(1-3)] assms(4) by simp
  have others: "\<forall>j < length tasks'. j \<noteq> length pre \<longrightarrow> tasks' ! j = (pre @ t # post) ! j"
    by (simp add: assms(4) nth_append nth_Cons split: nat.splits)
  have listed: "fst (listTasks P (snd (completeTask P i w))) = Tasks tasks'"
    if "writable w \<and> readable w \<and> JSON_parse P (JSON_stringify P tasks') = Some (Tasks tasks')"
    using that by (simp add: saved listTasks_def loadTasks_saveTasks flags)
  show ?thesis
    using saved others listed by (simp add: assms(4))
qed

theorem completeTask_frame_witness:
  "loadTasks sample (disk [tea, milk, milk_again])
     = (Tasks ([tea] @ milk # [milk_again]), disk [tea, milk, milk_again])
   \<and> task_id tea \<noteq> ''1700000000000''
   \<and> task_id milk = ''1700000000000''
   \<and> writable (disk [tea, milk, milk_again]) \<and> readable (disk [tea, milk, milk_again])
   \<and> JSON_parse sample (JSON_stringify sample [tea, milk\<lparr>completed := True\<rparr>, milk_again])
       = Some (Tasks [tea, milk\<lparr>completed := True\<rparr>, milk_again])
   \<and> snd (completeTask sample ''1700000000000'' (disk [tea, milk, milk_again]))
       = disk [tea, milk\<lparr>completed := True\<rparr>, milk_again]
   \<and> fst (listTasks sample (disk [tea, milk\<lparr>completed := True\<rparr>, milk_again]))
       = Tasks [tea, milk\<lparr>completed := True\<rparr>, milk_again]
   \<and> [tea, milk\<lparr>completed := True\<rparr>, milk_again] ! 0 = tea
   \<and> title ([tea, milk\<lparr>completed := True\<rparr>, milk_again] ! 1) = title milk
   \<and> [tea, milk\<lparr>completed := True\<rparr>, milk_again] ! 2 = milk_again"
proof -
  have l: "loadTasks sample (disk [tea, milk, milk_again])
           = (Tasks ([tea] @ milk # [milk_again]), disk [tea, milk, milk_again])"
    by (simp add: load_disk sample_known)
  have a: "\<forall>x\<in>set [tea]. task_id x \<noteq> ''1700000000000''"
    by (simp add: tea_def)
  have m: "task_id milk = ''1700000000000''"
    by (simp add: milk_def)
  have ok: "writable (disk [tea, milk, milk_again]) \<and> readable (disk [tea, milk, milk_again])
      \<and> JSON_parse sample (JSON_stringify sample [tea, milk\<lparr>completed := True\<rparr>, milk_again])
          = Some (Tasks [tea, milk\<lparr>completed := True\<rparr>, milk_again])"
    by (simp add: disk_def sample_def sample_reads_back sample_known)
  show ?thesis
    using completeTask_frame [OF l a m refl] l a m ok
    by (simp add: save_disk listTasks_def load_disk sample_known)
qed

section \<open>HTTP adapter: statuses and bodies\<close>

lemma post_tasks_rejects:
  "\<not> truthy (property req_body ''title'') \<Longrightarrow>
   post_tasks P now date req_body w
     = (Inr \<lparr>status = 400, body = Failed False ''Title is required''\<rparr>, w)"
  by (simp add: post_tasks_def)

lemma post_tasks_creates:
  "truthy (property req_body ''title'') \<Longrightarrow>
   createTask P now date (property req_body ''title'') w = (Inr task, w') \<Longrightarrow>
   post_tasks P now date req_body w = (Inr \<lparr>status = 201, body = Data True task\<rparr>, w')"
  by (simp add: post_tasks_def)

text \<open>
  C9. The HTTP adapter answers: the list with status 200 and
  \<^verbatim>\<open>{success: true, data, count}\<close>, the count being the length of the data; a
  creation whose title counts as true, as every non-empty string does, with status 201
  and \<^verbatim>\<open>{success: true, data}\<close> holding the record created; a creation whose
  title counts as false, as a missing title and the empty string do, with status 400 and
  \<^verbatim>\<open>{success: false, error: "Title is required"}\<close>, the world untouched; and
  reading, completing or deleting an id that no task of the collection has with status
  404 and \<^verbatim>\<open>{success: false, error: "Task not found"}\<close>.
\<close>

theorem http_responses:
  "(loadTasks P w = (Tasks tasks, w1) \<longrightarrow>
      get_tasks P w = (Inr \<lparr>status = 200, body = Listed True tasks (length tasks)\<rparr>, w1))
   \<and> (truthy (property req_body ''title'')
        \<and> createTask P now date (property req_body ''title'') w = (Inr task, w') \<longrightarrow>
      post_tasks P now date req_body w = (Inr \<lparr>status = 201, body = Data True task\<rparr>, w'))
   \<and> (\<not> truthy (property req_body ''title'') \<longrightarrow>
      post_tasks P now date req_body w
        = (Inr \<lparr>status = 400, body = Failed False ''Title is required''\<rparr>, w))
   \<and> (loadTasks P w = (Tasks tasks, w1) \<and> (\<forall>t\<in>set tasks. task_id t \<noteq> i) \<longrightarrow>
      fst (get_task_by_id P i w)
        = Inr \<lparr>status = 404, body = Failed False ''Task not found''\<rparr>
      \<and> fst (patch_task_complete P i w)
          = Inr \<lparr>status = 404, body = Failed False ''Task not found''\<rparr>
      \<and> fst (delete_task_by_id P i w)
          = Inr \<lparr>status = 404, body = Failed False ''Task not found''\<rparr>)"
proof -
  have listed:
    "get_tasks P w = (Inr \<lparr>status = 200, body = Listed True tasks (length tasks)\<rparr>, w1)"
    if "loadTasks P w = (Tasks tasks, w1)"
    using that by (simp add: get_tasks_def listTasks_def)
  have unknown:
    "fst (get_task_by_id P i w) = Inr \<lparr>status = 404, body = Failed False ''Task not found''\<rparr>
     \<and> fst (patch_task_complete P i w)
         = Inr \<lparr>status = 404, body = Failed False ''Task not found''\<rparr>
     \<and> fst (delete_task_by_id P i w)
         = Inr \<lparr>status = 404, body = Failed False ''Task not found''\<rparr>"
    if l: "loadTasks P w = (Tasks tasks, w1)" and a: "\<forall>t\<in>set tasks. task_id t \<noteq> i"
  proof -
    have "getTask P i w = (Inr None, w1)" "completeTask P i w = (Inr None, w1)"
      "deleteTask P i w = (Inr None, w1)"
      using l a
      by (simp_all add: getTask_def completeTask_def deleteTask_def find_absent findIndex_absent)
    then show ?thesis
      by (simp add: get_task_by_id_def patch_task_complete_def delete_task_by_id_def)
  qed
  show ?thesis
    using listed unknown post_tasks_rejects [of req_body P now date w]
      post_tasks_creates [of req_body P now date w task w']
    by blast
qed

theorem http_responses_witness:
  "loadTasks sample (disk [milk]) = (Tasks [milk], disk [milk])
   \<and> get_tasks sample (disk [milk])
       = (Inr \<lparr>status = 200, body = Listed True [milk] (length [milk])\<rparr>, disk [milk])
   \<and> truthy (property [(''title'', String ''Make tea'')] ''title'')
   \<and> post_tasks sample 1700000000500 1700000000500 [(''title'', String ''Make tea'')]
         (disk [milk])
       = (Inr \<lparr>status = 201, body = Data True tea\<rparr>, disk [milk, tea])
   \<and> \<not> truthy (property [] ''title'')
   \<and> post_tasks sample 1700000000500 1700000000500 [] (disk [milk])
       = (Inr \<lparr>status = 400, body = Failed False ''Title is required''\<rparr>, disk [milk])
   \<and> \<not> truthy (property [(''title'', String [])] ''title'')
   \<and> post_tasks sample 1700000000500 1700000000500 [(''title'', String [])] (disk [milk])
       = (Inr \<lparr>status = 400, body = Failed False ''Title is required''\<rparr>, disk [milk])
   \<and> task_id milk \<noteq> ''42''
   \<and> fst (get_task_by_id sample ''42'' (disk [milk]))
       = Inr \<lparr>status = 404, body = Failed False ''Task not found''\<rparr>
   \<and> fst (patch_task_complete sample ''42'' (disk [milk]))
       = Inr \<lparr>status = 404, body = Failed False ''Task not found''\<rparr>
   \<and> fst (delete_task_by_id sample ''42'' (disk [milk]))
       = Inr \<lparr>status = 404, body = Failed False ''Task not found''\<rparr>"
proof -
  have l: "loadTasks sample (disk [milk]) = (Tasks [milk], disk [milk])"
    by (simp add: load_disk sample_known)
  have valid: "truthy (property [(''title'', String ''Make tea'')] ''title'')"
    by (simp add: property_def)
  have c: "createTask sample 1700000000500 1700000000500
             (property [(''title'', String ''Make tea'')] ''title'') (disk [milk])
           = (Inr tea, disk [milk, tea])"
    by (simp add: createTask_def l clock_second save_disk tea_def Let_def property_def)
  have missing: "\<not> truthy (property [] ''title'')"
    and empty: "\<not> truthy (property [(''title'', String [])] ''title'')"
    by (simp_all add: property_def)
  have a: "\<forall>t\<in>set [milk]. task_id t \<noteq> ''42''"
    by (simp add: milk_def)
  show ?thesis
    using
      http_responses [where P = sample and w = "disk [milk]" and tasks = "[milk]"
        and ?w1.0 = "disk [milk]" and req_body = "[(''title'', String ''Make tea'')]"
        and now = 1700000000500 and date = 1700000000500 and task = tea
        and w' = "disk [milk, tea]" and i = "''42''"]
      http_responses [where P = sample and w = "disk [milk]" and tasks = "[milk]"
        and ?w1.0 = "disk [milk]" and req_body = "[]"
        and now = 1700000000500 and date = 1700000000500 and task = tea
        and w' = "disk [milk, tea]" and i = "''42''"]
      http_responses [where P = sample and w = "disk [milk]" and tasks = "[milk]"
        and ?w1.0 = "disk [milk]" and req_body = "[(''title'', String [])]"
        and now = 1700000000500 and date = 1700000000500 and task = tea
        and w' = "disk [milk, tea]" and i = "''42''"]
      l valid c missing empty a
    by simp
qed

section \<open>Tool adapter: creating a task\<close>

lemma call_create_task_present:
  assumes "createTask P now date (property args ''title'') w = (Inr task, w')"
  shows "call_create_task P now date (Some args) w
         = (\<lparr>text_of = ''Task created successfully:'' @ [CHR 0x0A] @ JSON_stringify_task P task,
              isError = False\<rparr>, w')"
  using assms by (simp add: call_create_task_def)

lemma call_create_task_absent:
  "call_create_task P now date None w
   = (\<lparr>text_of = ''No arguments provided'', isError = True\<rparr>, w)"
  by (simp add: call_create_task_def)

text \<open>
  C1. A create request with an empty or missing title creates no record and gets a
  validation error from each adapter. The HTTP adapter does so (first line below, and
  \<open>post_tasks_rejects\<close> in general). The tool adapter does so only when the call
  carries no arguments at all (\<open>call_create_task_absent\<close>). Called with the arguments
  \<^verbatim>\<open>{"title": ""}\<close> on a first run, it answers with the text of a success and no
  error flag, and the collection, empty before, holds a record with the empty title
  afterwards; called with \<^verbatim>\<open>{}\<close>, it does the same with a record whose title is
  \<^verbatim>\<open>undefined\<close>. By \<open>call_create_task_present\<close> it accepts every arguments
  object whenever \<^verbatim>\<open>createTask\<close> returns.
\<close>

theorem create_task_tool_takes_empty_title:
  "post_tasks sample 1700000000000 1700000000000 [(''title'', String [])] first_run
     = (Inr \<lparr>status = 400, body = Failed False ''Title is required''\<rparr>, first_run)
   \<and> call_create_task sample 1700000000000 1700000000000 (Some [(''title'', String [])])
         first_run
       = (\<lparr>text_of = ''Task created successfully:'' @ [CHR 0x0A] @ sample_task_text untitled,
            isError = False\<rparr>, disk [untitled])
   \<and> title untitled = String []
   \<and> fst (listTasks sample first_run) = Tasks []
   \<and> fst (listTasks sample (disk [untitled])) = Tasks [untitled]
   \<and> call_create_task sample 1700000000000 1700000000000 (Some []) first_run
       = (\<lparr>text_of = ''Task created successfully:'' @ [CHR 0x0A]
              @ sample_task_text (untitled\<lparr>title := Undefined\<rparr>),
            isError = False\<rparr>, disk [untitled\<lparr>title := Undefined\<rparr>])"
proof -
  have c: "createTask sample 1700000000000 1700000000000
             (property [(''title'', String [])] ''title'') first_run
           = (Inr untitled, disk [untitled])"
    by (simp add: createTask_def load_first_run clock_first save_first_run untitled_def
        Let_def property_def)
  have u: "createTask sample 1700000000000 1700000000000 (property [] ''title'') first_run
           = (Inr (untitled\<lparr>title := Undefined\<rparr>), disk [untitled\<lparr>title := Undefined\<rparr>])"
    by (simp add: createTask_def load_first_run clock_first save_first_run untitled_def
        Let_def property_def)
  have "call_create_task sample 1700000000000 1700000000000 (Some [(''title'', String [])])
          first_run
        = (\<lparr>text_of = ''Task created successfully:'' @ [CHR 0x0A] @ sample_task_text untitled,
             isError = False\<rparr>, disk [untitled])"
    using call_create_task_present [OF c] by (simp add: sample_def)
  moreover have "call_create_task sample 1700000000000 1700000000000 (Some []) first_run
        = (\<lparr>text_of = ''Task created successfully:'' @ [CHR 0x0A]
               @ sample_task_text (untitled\<lparr>title := Undefined\<rparr>),
             isError = False\<rparr>, disk [untitled\<lparr>title := Undefined\<rparr>])"
    using call_create_task_present [OF u] by (simp add: sample_def)
  moreover have "post_tasks sample 1700000000000 1700000000000 [(''title'', String [])]
                   first_run
                 = (Inr \<lparr>status = 400, body = Failed False ''Title is required''\<rparr>, first_run)"
    by (simp add: post_tasks_rejects property_def)
  moreover have "title untitled = String []"
    by (simp add: untitled_def)
  moreover have "fst (listTasks sample first_run) = Tasks []"
    by (simp add: listTasks_def load_first_run)
  moreover have "fst (listTasks sample (disk [untitled])) = Tasks [untitled]"
    by (simp add: listTasks_def load_disk sample_known)
  ultimately show ?thesis
    by simp
qed

end
